theory Spec2Isabelle
  imports Main
begin

section \<open>The Event controller (server/api/event/event.controller.js)\<close>

text \<open>
  The controller is glue between an HTTP layer and a document store. Its own code is the
  five helpers (\<open>respondWithResult\<close>, \<open>patchUpdates\<close>, \<open>removeEntity\<close>,
  \<open>handleEntityNotFound\<close>, \<open>handleError\<close>) and the ten exported handlers. Everything
  else it calls (the Mongoose model \<open>Event\<close>, the documents' \<open>save\<close> and \<open>remove\<close>,
  \<open>jsonpatch.apply\<close>, the \<open>RegExp\<close> constructor) is outside the file and is taken as a
  parameter: a record of functions, the environment, of which the handlers are functions.
\<close>

subsection \<open>JavaScript values\<close>

text \<open>
  The values that flow through the module: parsed JSON (request bodies, documents, arrays of
  documents), \<open>undefined\<close>, and the response object that \<open>res.json\<close> returns for
  chaining. An object is an association list read with \<open>map_of\<close>. Numbers are integers
  here: the module only tests a number for being zero.
\<close>

datatype jsval =
    JUndefined
  | JNull
  | JBool bool
  | JNum int
  | JStr string
  | JArr "jsval list"
  | JObj "(string \<times> jsval) list"
  | JRes

text \<open>\<open>if(v)\<close>: the falsy values are \<open>undefined\<close>, \<open>null\<close>, \<open>false\<close>, \<open>0\<close> and \<open>""\<close>.\<close>

fun truthy :: "jsval \<Rightarrow> bool" where
  "truthy JUndefined = False"
| "truthy JNull = False"
| "truthy (JBool b) = b"
| "truthy (JNum n) = (n \<noteq> 0)"
| "truthy (JStr s) = (s \<noteq> [])"
| "truthy (JArr vs) = True"
| "truthy (JObj kvs) = True"
| "truthy JRes = True"

text \<open>
  An error is a value too. \<open>TypeError\<close> is the one the JavaScript runtime raises inside this
  module (a property read or a method call on \<open>null\<close> or \<open>undefined\<close>); \<open>Failure x\<close> is
  whatever a collaborator threw or rejected with.
\<close>

datatype 'x error = TypeError | Failure 'x

text \<open>
  \<open>v._id\<close>. Reading a property of \<open>null\<close> or \<open>undefined\<close> throws. An array, a string, a
  number or a boolean has no property of that name, so the read gives \<open>undefined\<close>.
\<close>

fun get_id :: "jsval \<Rightarrow> 'x error + jsval" where
  "get_id JUndefined = Inl TypeError"
| "get_id JNull = Inl TypeError"
| "get_id (JObj kvs) = Inr (case map_of kvs ''_id'' of Some v \<Rightarrow> v | None \<Rightarrow> JUndefined)"
| "get_id v = Inr JUndefined"

text \<open>The members of an object other than the member \<open>k\<close>.\<close>

definition without :: "string \<Rightarrow> (string \<times> 'a) list \<Rightarrow> (string \<times> 'a) list" where
  "without k kvs = filter (\<lambda>kv. fst kv \<noteq> k) kvs"

text \<open>
  \<open>Reflect.deleteProperty(v, '_id')\<close>: removes the own property of that name from an object
  (an array is an object without such a property); throws on a primitive.
\<close>

fun deleteProperty_id :: "jsval \<Rightarrow> 'x error + jsval" where
  "deleteProperty_id (JObj kvs) = Inr (JObj (without ''_id'' kvs))"
| "deleteProperty_id (JArr vs) = Inr (JArr vs)"
| "deleteProperty_id JRes = Inr JRes"
| "deleteProperty_id v = Inl TypeError"

subsection \<open>Requests, responses, the world\<close>

record request =
  params :: "(string \<times> string) list"
  body :: jsval

text \<open>\<open>req.params.k\<close>: a string when the route has the parameter, \<open>undefined\<close> otherwise.\<close>

definition param :: "request \<Rightarrow> string \<Rightarrow> jsval" where
  "param req k = (case map_of (params req) k of Some v \<Rightarrow> JStr v | None \<Rightarrow> JUndefined)"

text \<open>
  What the module writes on the response object: \<open>res.status(c).end()\<close>,
  \<open>res.status(c).json(entity)\<close>, \<open>res.status(c).send(err)\<close>. The response object is
  modelled by the list of these writes, in the order the module issues them.
\<close>

datatype 'x payload = NoBody | JsonBody jsval | SendBody "'x error"

datatype 'x response = Response (status: nat) (payload: "'x payload")

record ('s, 'x) world =
  store :: 's
  res :: "'x response list"

text \<open>A promise, once settled: rejected with an error or resolved with a value, in a world.\<close>

type_synonym ('s, 'x) promise = "('x error + jsval) \<times> ('s, 'x) world"

definition then_p ::
  "('s, 'x) promise \<Rightarrow> (jsval \<Rightarrow> ('s, 'x) world \<Rightarrow> ('s, 'x) promise) \<Rightarrow> ('s, 'x) promise" where
  "then_p p f = (case p of (Inl e, w) \<Rightarrow> (Inl e, w) | (Inr v, w) \<Rightarrow> f v w)"

definition catch_p ::
  "('s, 'x) promise \<Rightarrow> ('x error \<Rightarrow> ('s, 'x) world \<Rightarrow> ('s, 'x) promise) \<Rightarrow> ('s, 'x) promise" where
  "catch_p p h = (case p of (Inl e, w) \<Rightarrow> h e w | (Inr v, w) \<Rightarrow> (Inr v, w))"

subsection \<open>The collaborators\<close>

text \<open>The queries the module sends to \<open>Event.find\<close>.\<close>

datatype 'r query =
    Everything
  | NameRegex 'r
  | HostIs jsval
  | ParticipantUser jsval
  | FavoritesBy jsval

type_synonym populate = "string \<times> string list"

definition populate_host :: populate where
  "populate_host = (''host'', [''_id'', ''name'', ''imageUrl''])"

definition populate_participants :: populate where
  "populate_participants = (''participants.user'', [''_id'', ''name'', ''imageUrl''])"

record update_options =
  opt_new :: bool
  opt_upsert :: bool
  opt_setDefaultsOnInsert :: bool
  opt_runValidators :: bool

definition upsert_options :: update_options where
  "upsert_options =
     \<lparr>opt_new = True, opt_upsert = True, opt_setDefaultsOnInsert = True,
      opt_runValidators = True\<rparr>"

text \<open>
  The environment. \<open>'s\<close> is the state of the store, \<open>'x\<close> the errors of the collaborators,
  \<open>'r\<close> the compiled regular expressions. A query reads the store; \<open>create\<close>,
  \<open>findOneAndUpdate\<close>, \<open>save\<close> and \<open>remove\<close> may change it, whether they succeed or not.
  \<open>jsonpatch_apply\<close> either throws or gives the entity as mutated in place.
\<close>

record ('s, 'x, 'r) env =
  Event_find :: "'r query \<Rightarrow> populate list \<Rightarrow> 's \<Rightarrow> 'x error + jsval"
  Event_findById :: "jsval \<Rightarrow> populate list \<Rightarrow> 's \<Rightarrow> 'x error + jsval"
  Event_create :: "jsval \<Rightarrow> 's \<Rightarrow> ('x error + jsval) \<times> 's"
  Event_findOneAndUpdate ::
    "jsval \<Rightarrow> jsval \<Rightarrow> update_options \<Rightarrow> 's \<Rightarrow> ('x error + jsval) \<times> 's"
  entity_save :: "jsval \<Rightarrow> 's \<Rightarrow> ('x error + jsval) \<times> 's"
  entity_remove :: "jsval \<Rightarrow> 's \<Rightarrow> ('x error + jsval) \<times> 's"
  jsonpatch_apply :: "jsval \<Rightarrow> jsval \<Rightarrow> bool \<Rightarrow> 'x error + jsval"
  RegExp_new :: "jsval \<Rightarrow> string \<Rightarrow> 'x error + 'r"

text \<open>A read of the store and an operation on it, as promises.\<close>

definition exec_query :: "('s \<Rightarrow> 'x error + jsval) \<Rightarrow> ('s, 'x) world \<Rightarrow> ('s, 'x) promise" where
  "exec_query q w = (q (store w), w)"

definition exec_update ::
  "('s \<Rightarrow> ('x error + jsval) \<times> 's) \<Rightarrow> ('s, 'x) world \<Rightarrow> ('s, 'x) promise" where
  "exec_update u w = (case u (store w) of (r, s') \<Rightarrow> (r, w\<lparr>store := s'\<rparr>))"

subsection \<open>The helpers\<close>

text \<open>\<open>statusCode = statusCode || d\<close>: a missing or zero status code takes the default.\<close>

definition or_default :: "nat option \<Rightarrow> nat \<Rightarrow> nat" where
  "or_default statusCode d =
     (case statusCode of None \<Rightarrow> d | Some c \<Rightarrow> if c = 0 then d else c)"

definition res_write :: "nat \<Rightarrow> 'x payload \<Rightarrow> ('s, 'x) world \<Rightarrow> ('s, 'x) world" where
  "res_write c b w = w\<lparr>res := res w @ [Response c b]\<rparr>"

definition respondWithResult ::
  "nat option \<Rightarrow> jsval \<Rightarrow> ('s, 'x) world \<Rightarrow> ('s, 'x) promise" where
  "respondWithResult statusCode entity w =
     (if truthy entity
      then (Inr JRes, res_write (or_default statusCode 200) (JsonBody entity) w)
      else (Inr JNull, w))"

text \<open>
  \<open>jsonpatch.apply\<close> mutates the entity in place; the model takes the mutated entity
  from the environment. \<open>entity.save()\<close> is a method call: on \<open>null\<close> or
  \<open>undefined\<close> the runtime raises a TypeError, which inside a \<open>then\<close> callback
  rejects the promise (and no mutation in place can have made \<open>null\<close> an object). On
  any other value the call is the environment's \<open>entity_save\<close>.
\<close>

definition patchUpdates ::
  "('s, 'x, 'r) env \<Rightarrow> jsval \<Rightarrow> jsval \<Rightarrow> ('s, 'x) world \<Rightarrow> ('s, 'x) promise" where
  "patchUpdates M patches entity w =
     (case jsonpatch_apply M entity patches True of
        Inl err \<Rightarrow> (Inl err, w)
      | Inr entity' \<Rightarrow>
          if entity = JNull \<or> entity = JUndefined then (Inl TypeError, w)
          else exec_update (entity_save M entity') w)"

definition removeEntity ::
  "('s, 'x, 'r) env \<Rightarrow> jsval \<Rightarrow> ('s, 'x) world \<Rightarrow> ('s, 'x) promise" where
  "removeEntity M entity w =
     (if truthy entity
      then then_p (exec_update (entity_remove M entity) w)
             (\<lambda>_ w'. (Inr JUndefined, res_write 204 NoBody w'))
      else (Inr JUndefined, w))"

definition handleEntityNotFound :: "jsval \<Rightarrow> ('s, 'x) world \<Rightarrow> ('s, 'x) promise" where
  "handleEntityNotFound entity w =
     (if \<not> truthy entity then (Inr JNull, res_write 404 NoBody w) else (Inr entity, w))"

definition handleError ::
  "nat option \<Rightarrow> 'x error \<Rightarrow> ('s, 'x) world \<Rightarrow> ('s, 'x) promise" where
  "handleError statusCode err w =
     (Inr JUndefined, res_write (or_default statusCode 500) (SendBody err) w)"

subsection \<open>The handlers\<close>

text \<open>
  A handler returns \<open>Inl e\<close> when it throws before it has a promise (nothing is written
  then), and otherwise the world once its promise has settled.
\<close>

type_synonym ('s, 'x) outcome = "'x error + ('s, 'x) world"

definition index ::
  "('s, 'x, 'r) env \<Rightarrow> request \<Rightarrow> ('s, 'x) world \<Rightarrow> ('s, 'x) outcome" where
  "index M req w =
     Inr (snd (catch_p
       (then_p (exec_query (Event_find M Everything [populate_host]) w)
          (respondWithResult None))
       (handleError None)))"

definition show_handler ::
  "('s, 'x, 'r) env \<Rightarrow> request \<Rightarrow> ('s, 'x) world \<Rightarrow> ('s, 'x) outcome" where
  "show_handler M req w =
     Inr (snd (catch_p
       (then_p
          (then_p
             (exec_query
                (Event_findById M (param req ''id'') [populate_host, populate_participants]) w)
             handleEntityNotFound)
          (respondWithResult None))
       (handleError None)))"

definition create ::
  "('s, 'x, 'r) env \<Rightarrow> request \<Rightarrow> ('s, 'x) world \<Rightarrow> ('s, 'x) outcome" where
  "create M req w =
     Inr (snd (catch_p
       (then_p (exec_update (Event_create M (body req)) w) (respondWithResult (Some 201)))
       (handleError None)))"

text \<open>
  \<open>if(req.body._id) { Reflect.deleteProperty(req.body, '_id'); }\<close>, the first statement of
  \<open>upsert\<close> and of \<open>patch\<close>: the body as it is afterwards, or the error thrown.
\<close>

definition strip_id :: "jsval \<Rightarrow> 'x error + jsval" where
  "strip_id b =
     (case get_id b of
        Inl e \<Rightarrow> Inl e
      | Inr v \<Rightarrow> if truthy v then deleteProperty_id b else Inr b)"

definition upsert ::
  "('s, 'x, 'r) env \<Rightarrow> request \<Rightarrow> ('s, 'x) world \<Rightarrow> ('s, 'x) outcome" where
  "upsert M req w =
     (case strip_id (body req) of
        Inl e \<Rightarrow> Inl e
      | Inr body' \<Rightarrow>
          Inr (snd (catch_p
            (then_p
               (exec_update
                  (Event_findOneAndUpdate M (param req ''id'') body' upsert_options) w)
               (respondWithResult None))
            (handleError None))))"

definition patch ::
  "('s, 'x, 'r) env \<Rightarrow> request \<Rightarrow> ('s, 'x) world \<Rightarrow> ('s, 'x) outcome" where
  "patch M req w =
     (case strip_id (body req) of
        Inl e \<Rightarrow> Inl e
      | Inr body' \<Rightarrow>
          Inr (snd (catch_p
            (then_p
               (then_p
                  (then_p (exec_query (Event_findById M (param req ''id'') []) w)
                     handleEntityNotFound)
                  (patchUpdates M body'))
               (respondWithResult None))
            (handleError None))))"

definition destroy ::
  "('s, 'x, 'r) env \<Rightarrow> request \<Rightarrow> ('s, 'x) world \<Rightarrow> ('s, 'x) outcome" where
  "destroy M req w =
     Inr (snd (catch_p
       (then_p
          (then_p (exec_query (Event_findById M (param req ''id'') []) w)
             handleEntityNotFound)
          (removeEntity M))
       (handleError None)))"

text \<open>\<open>new RegExp(req.params.text, 'i')\<close> is evaluated before \<open>Event.find\<close> is called.\<close>

definition search ::
  "('s, 'x, 'r) env \<Rightarrow> request \<Rightarrow> ('s, 'x) world \<Rightarrow> ('s, 'x) outcome" where
  "search M req w =
     (case RegExp_new M (param req ''text'') ''i'' of
        Inl e \<Rightarrow> Inl e
      | Inr re \<Rightarrow>
          Inr (snd (catch_p
            (then_p (exec_query (Event_find M (NameRegex re) [populate_host]) w)
               (respondWithResult None))
            (handleError None))))"

definition hosting ::
  "('s, 'x, 'r) env \<Rightarrow> request \<Rightarrow> ('s, 'x) world \<Rightarrow> ('s, 'x) outcome" where
  "hosting M req w =
     Inr (snd (catch_p
       (then_p (exec_query (Event_find M (HostIs (param req ''host'')) [populate_host]) w)
          (respondWithResult None))
       (handleError None)))"

definition going ::
  "('s, 'x, 'r) env \<Rightarrow> request \<Rightarrow> ('s, 'x) world \<Rightarrow> ('s, 'x) outcome" where
  "going M req w =
     Inr (snd (catch_p
       (then_p
          (exec_query
             (Event_find M (ParticipantUser (param req ''participant'')) [populate_host]) w)
          (respondWithResult None))
       (handleError None)))"

definition favorite ::
  "('s, 'x, 'r) env \<Rightarrow> request \<Rightarrow> ('s, 'x) world \<Rightarrow> ('s, 'x) outcome" where
  "favorite M req w =
     Inr (snd (catch_p
       (then_p (exec_query (Event_find M (FavoritesBy (param req ''user'')) [populate_host]) w)
          (respondWithResult None))
       (handleError None)))"

text \<open>The exports of the module, by the route names of its header comment.\<close>

datatype endpoint =
  Index | Show | Create | Upsert | Patch | Destroy | Search | Hosting | Going | Favorite

fun handle ::
  "endpoint \<Rightarrow> ('s, 'x, 'r) env \<Rightarrow> request \<Rightarrow> ('s, 'x) world \<Rightarrow> ('s, 'x) outcome" where
  "handle Index = index"
| "handle Show = show_handler"
| "handle Create = create"
| "handle Upsert = upsert"
| "handle Patch = patch"
| "handle Destroy = destroy"
| "handle Search = search"
| "handle Hosting = hosting"
| "handle Going = going"
| "handle Favorite = favorite"

text \<open>
  The world after the outcome of a store operation has been answered by
  \<open>.then(respondWithResult(res, c)).catch(handleError(res))\<close>: status 500 with the error,
  or status \<open>c\<close> with the entity when there is one.
\<close>

definition answered ::
  "nat \<Rightarrow> ('x error + jsval) \<times> 's \<Rightarrow> ('s, 'x) world \<Rightarrow> ('s, 'x) world" where
  "answered c r w =
     (case r of
        (Inl e, s') \<Rightarrow> w\<lparr>store := s', res := res w @ [Response 500 (SendBody e)]\<rparr>
      | (Inr d, s') \<Rightarrow>
          if truthy d then w\<lparr>store := s', res := res w @ [Response c (JsonBody d)]\<rparr>
          else w\<lparr>store := s'\<rparr>)"

subsection \<open>An in-memory environment\<close>

text \<open>
  Modelled from the spec: the document store behind \<open>./event.model\<close> (find, findById,
  create, findOneAndUpdate, save, remove), the JSON-Patch library and the \<open>RegExp\<close>
  constructor are not among the sources. This environment is one instance of the record
  above, small enough to run: documents are objects with a string \<open>_id\<close>, kept in an
  association list by identifier; \<open>faults\<close> makes chosen store operations fail, as a
  store that is down would. References are not expanded (there is no user collection).
  It is used to run the handlers on concrete requests; the theorems about the handlers hold
  for every environment.
\<close>

datatype operation = OpFind | OpFindById | OpCreate | OpFindOneAndUpdate | OpSave | OpRemove

type_synonym memory = "(string \<times> jsval) list"

definition no_faults :: "operation \<Rightarrow> string option" where
  "no_faults = (\<lambda>_. None)"

definition field :: "jsval \<Rightarrow> string \<Rightarrow> jsval" where
  "field d k =
     (case d of
        JObj kvs \<Rightarrow> (case map_of kvs k of Some v \<Rightarrow> v | None \<Rightarrow> JUndefined)
      | _ \<Rightarrow> JUndefined)"

text \<open>
  Patterns. A text without syntax characters is a pattern that matches itself; with the
  flag \<open>i\<close> the letters \<open>a\<close> to \<open>z\<close> match in either case. A text without
  backslash that leaves a group or a character class open, or closes a group it has not
  opened, is not a pattern: the constructor throws a SyntaxError. Other texts are not
  analysed: this environment takes them as patterns it cannot match, and its store refuses
  a query with one.
\<close>

datatype regex = Literal string string | Pattern string string

definition syntax_characters :: string where
  "syntax_characters = CHR 0x5C # ''^$.*+?()[]{}|''"

text \<open>
  Reading a text without backslash from left to right: \<open>[\<close> opens a character class,
  which the next \<open>]\<close> closes and in which parentheses are ordinary characters; outside
  a class \<open>(\<close> opens a group and \<open>)\<close> closes the last one opened.
\<close>

fun closes_groups :: "nat \<Rightarrow> bool \<Rightarrow> string \<Rightarrow> bool" where
  "closes_groups depth in_class [] = (depth = 0 \<and> \<not> in_class)"
| "closes_groups depth in_class (c # cs) =
     (if in_class then closes_groups depth (c \<noteq> CHR '']'') cs
      else if c = CHR ''['' then closes_groups depth True cs
      else if c = CHR ''('' then closes_groups (Suc depth) False cs
      else if c = CHR '')'' then depth \<noteq> 0 \<and> closes_groups (depth - 1) False cs
      else closes_groups depth False cs)"

definition malformed :: "string \<Rightarrow> bool" where
  "malformed p = (CHR 0x5C \<notin> set p \<and> \<not> closes_groups 0 False p)"

definition memory_RegExp :: "jsval \<Rightarrow> string \<Rightarrow> string error + regex" where
  "memory_RegExp v flags =
     (case v of
        JStr p \<Rightarrow>
          if list_all (\<lambda>c. c \<notin> set syntax_characters) p then Inr (Literal p flags)
          else if malformed p then Inl (Failure ''SyntaxError'')
          else Inr (Pattern p flags)
      | JUndefined \<Rightarrow> Inr (Literal [] flags)
      | _ \<Rightarrow> Inr (Pattern [] flags))"

definition to_upper :: "char \<Rightarrow> char" where
  "to_upper c =
     (case map_of (zip ''abcdefghijklmnopqrstuvwxyz'' ''ABCDEFGHIJKLMNOPQRSTUVWXYZ'') c of
        Some u \<Rightarrow> u
      | None \<Rightarrow> c)"

definition canonical :: "string \<Rightarrow> string \<Rightarrow> string" where
  "canonical flags s = (if CHR ''i'' \<in> set flags then map to_upper s else s)"

fun contains :: "string \<Rightarrow> string \<Rightarrow> bool" where
  "contains p [] = (p = [])"
| "contains p (c # cs) = (take (length p) (c # cs) = p \<or> contains p cs)"

fun satisfies :: "regex query \<Rightarrow> jsval \<Rightarrow> bool" where
  "satisfies Everything d = True"
| "satisfies (NameRegex (Literal p fl)) d =
     (case field d ''name'' of
        JStr n \<Rightarrow> contains (canonical fl p) (canonical fl n)
      | _ \<Rightarrow> False)"
| "satisfies (NameRegex (Pattern p fl)) d = False"
| "satisfies (HostIs h) d = (field d ''host'' = h)"
| "satisfies (ParticipantUser u) d =
     (case field d ''participants'' of
        JArr ps \<Rightarrow> list_ex (\<lambda>p. field p ''user'' = u) ps
      | _ \<Rightarrow> False)"
| "satisfies (FavoritesBy u) d =
     (case field d ''favoritesBy'' of JArr us \<Rightarrow> u \<in> set us | _ \<Rightarrow> False)"

definition memory_find ::
  "(operation \<Rightarrow> string option) \<Rightarrow> regex query \<Rightarrow> populate list \<Rightarrow> memory
   \<Rightarrow> string error + jsval" where
  "memory_find faults q pop s =
     (case faults OpFind of
        Some m \<Rightarrow> Inl (Failure m)
      | None \<Rightarrow>
          (case q of
             NameRegex (Pattern p fl) \<Rightarrow> Inl (Failure ''pattern not supported'')
           | _ \<Rightarrow> Inr (JArr (filter (satisfies q) (map snd s)))))"

definition memory_findById ::
  "(operation \<Rightarrow> string option) \<Rightarrow> jsval \<Rightarrow> populate list \<Rightarrow> memory
   \<Rightarrow> string error + jsval" where
  "memory_findById faults i pop s =
     (case faults OpFindById of
        Some m \<Rightarrow> Inl (Failure m)
      | None \<Rightarrow>
          (case i of
             JStr k \<Rightarrow> Inr (case map_of s k of Some d \<Rightarrow> d | None \<Rightarrow> JNull)
           | _ \<Rightarrow> Inl (Failure ''CastError'')))"

text \<open>An identifier longer than every identifier in use.\<close>

definition fresh_id :: "memory \<Rightarrow> string" where
  "fresh_id s = replicate (Suc (foldr max (map (length \<circ> fst) s) 0)) (CHR ''0'')"

definition memory_create ::
  "(operation \<Rightarrow> string option) \<Rightarrow> jsval \<Rightarrow> memory \<Rightarrow> (string error + jsval) \<times> memory" where
  "memory_create faults b s =
     (case faults OpCreate of
        Some m \<Rightarrow> (Inl (Failure m), s)
      | None \<Rightarrow>
          (case b of
             JObj kvs \<Rightarrow>
               (case (case map_of kvs ''_id'' of
                        None \<Rightarrow> Some (fresh_id s)
                      | Some (JStr i) \<Rightarrow> Some i
                      | Some _ \<Rightarrow> None) of
                  None \<Rightarrow> (Inl (Failure ''CastError''), s)
                | Some k \<Rightarrow>
                    if k \<in> fst ` set s then (Inl (Failure ''DuplicateKey''), s)
                    else (let d = JObj ((''_id'', JStr k) # without ''_id'' kvs)
                          in (Inr d, (k, d) # s)))
           | _ \<Rightarrow> (Inl (Failure ''ValidationError''), s)))"

text \<open>
  \<open>findOneAndUpdate({_id: i}, upd, opts)\<close>: sets the members of \<open>upd\<close> on the document
  with identifier \<open>i\<close>, inserting it first when \<open>upsert\<close> is set; refuses an update that
  would give the document another \<open>_id\<close>.
\<close>

definition set_fields ::
  "(string \<times> jsval) list \<Rightarrow> (string \<times> jsval) list \<Rightarrow> (string \<times> jsval) list" where
  "set_fields upd old = foldl (\<lambda>acc kv. without (fst kv) acc @ [kv]) old upd"

definition memory_findOneAndUpdate ::
  "(operation \<Rightarrow> string option) \<Rightarrow> jsval \<Rightarrow> jsval \<Rightarrow> update_options \<Rightarrow> memory
   \<Rightarrow> (string error + jsval) \<times> memory" where
  "memory_findOneAndUpdate faults i upd opts s =
     (case faults OpFindOneAndUpdate of
        Some m \<Rightarrow> (Inl (Failure m), s)
      | None \<Rightarrow>
          (case (i, upd) of
             (JStr k, JObj kvs) \<Rightarrow>
               if field upd ''_id'' \<noteq> JUndefined \<and> field upd ''_id'' \<noteq> JStr k
               then (Inl (Failure ''ImmutableField''), s)
               else
                 (case map_of s k of
                    Some old \<Rightarrow>
                      (let d = (case old of JObj f \<Rightarrow> JObj (set_fields kvs f) | _ \<Rightarrow> old)
                       in (Inr (if opt_new opts then d else old), (k, d) # without k s))
                  | None \<Rightarrow>
                      if opt_upsert opts
                      then (let d = JObj ((''_id'', JStr k) # without ''_id'' kvs)
                            in (Inr (if opt_new opts then d else JNull), (k, d) # s))
                      else (Inr JNull, s))
           | _ \<Rightarrow> (Inl (Failure ''CastError''), s)))"

text \<open>
  \<open>save\<close> writes back a document that was read from the store: it fails when the store
  has no document with that identifier.
\<close>

definition memory_save ::
  "(operation \<Rightarrow> string option) \<Rightarrow> jsval \<Rightarrow> memory \<Rightarrow> (string error + jsval) \<times> memory" where
  "memory_save faults e s =
     (case faults OpSave of
        Some m \<Rightarrow> (Inl (Failure m), s)
      | None \<Rightarrow>
          (case field e ''_id'' of
             JStr k \<Rightarrow>
               if k \<in> fst ` set s then (Inr e, (k, e) # without k s)
               else (Inl (Failure ''DocumentNotFoundError''), s)
           | _ \<Rightarrow> (Inl (Failure ''ValidationError''), s)))"

definition memory_remove ::
  "(operation \<Rightarrow> string option) \<Rightarrow> jsval \<Rightarrow> memory \<Rightarrow> (string error + jsval) \<times> memory" where
  "memory_remove faults e s =
     (case faults OpRemove of
        Some m \<Rightarrow> (Inl (Failure m), s)
      | None \<Rightarrow>
          (case field e ''_id'' of
             JStr k \<Rightarrow> (Inr e, without k s)
           | _ \<Rightarrow> (Inl (Failure ''ValidationError''), s)))"

text \<open>
  The patch applier of this environment knows \<open>add\<close>, \<open>remove\<close> and \<open>replace\<close> on a
  member of the entity (a path \<open>/key\<close>) and fails on anything else; \<open>remove\<close> and
  \<open>replace\<close> need the member to exist, \<open>add\<close> and \<open>replace\<close> need a value. It
  stops at the first operation that fails. It walks the operations by index up to
  \<open>patches.length\<close>: patches that are an object (or a number, or a boolean) have no
  length and nothing is applied; reading the length of \<open>null\<close> or \<open>undefined\<close>
  throws, and a character of a string is not an operation.
\<close>

definition apply_operation ::
  "(string \<times> jsval) list \<Rightarrow> jsval \<Rightarrow> string error + (string \<times> jsval) list" where
  "apply_operation members operation =
     (case (field operation ''op'', field operation ''path'') of
        (JStr name, JStr (c # key)) \<Rightarrow>
          if c \<noteq> CHR ''/'' \<or> CHR ''/'' \<in> set key
          then Inl (Failure ''OPERATION_PATH_UNRESOLVABLE'')
          else if (name = ''add'' \<or> name = ''replace'') \<and> field operation ''value'' = JUndefined
          then Inl (Failure ''OPERATION_VALUE_REQUIRED'')
          else if name = ''add''
          then Inr (without key members @ [(key, field operation ''value'')])
          else if name = ''remove'' \<or> name = ''replace''
          then (if key \<notin> fst ` set members then Inl (Failure ''OPERATION_PATH_UNRESOLVABLE'')
                else if name = ''remove'' then Inr (without key members)
                else Inr (map (\<lambda>kv. if fst kv = key then (key, field operation ''value'')
                                     else kv) members))
          else Inl (Failure ''OPERATION_OP_INVALID'')
      | _ \<Rightarrow> Inl (Failure ''OPERATION_PATH_INVALID''))"

fun apply_operations ::
  "(string \<times> jsval) list \<Rightarrow> jsval list \<Rightarrow> string error + (string \<times> jsval) list" where
  "apply_operations members [] = Inr members"
| "apply_operations members (operation # operations) =
     (case apply_operation members operation of
        Inl e \<Rightarrow> Inl e
      | Inr members' \<Rightarrow> apply_operations members' operations)"

definition memory_apply :: "jsval \<Rightarrow> jsval \<Rightarrow> bool \<Rightarrow> string error + jsval" where
  "memory_apply entity patches validate =
     (case entity of
        JObj members \<Rightarrow>
          (case patches of
             JArr operations \<Rightarrow>
               (case apply_operations members operations of
                  Inl e \<Rightarrow> Inl e
                | Inr members' \<Rightarrow> Inr (JObj members'))
           | JNull \<Rightarrow> Inl TypeError
           | JUndefined \<Rightarrow> Inl TypeError
           | JStr (c # cs) \<Rightarrow> Inl TypeError
           | _ \<Rightarrow> Inr (JObj members))
      | _ \<Rightarrow> Inl TypeError)"

definition memory_env :: "(operation \<Rightarrow> string option) \<Rightarrow> (memory, string, regex) env" where
  "memory_env faults =
     \<lparr>Event_find = memory_find faults,
      Event_findById = memory_findById faults,
      Event_create = memory_create faults,
      Event_findOneAndUpdate = memory_findOneAndUpdate faults,
      entity_save = memory_save faults,
      entity_remove = memory_remove faults,
      jsonpatch_apply = memory_apply,
      RegExp_new = memory_RegExp\<rparr>"

text \<open>Two events and a store that holds them.\<close>

definition launch :: jsval where
  "launch =
     JObj [(''_id'', JStr ''e1''), (''name'', JStr ''Launch Party''), (''host'', JStr ''u1'')]"

definition picnic :: jsval where
  "picnic = JObj [(''_id'', JStr ''e2''), (''name'', JStr ''Picnic''), (''host'', JStr ''u2'')]"

definition two_events :: memory where
  "two_events = [(''e1'', launch), (''e2'', picnic)]"

text \<open>Stores in which every operation fails, or one of them.\<close>

definition all_down :: "operation \<Rightarrow> string option" where
  "all_down = (\<lambda>_. Some ''down'')"

definition down :: "operation \<Rightarrow> operation \<Rightarrow> string option" where
  "down failing = (\<lambda>op. if op = failing then Some ''down'' else None)"

text \<open>Requests.\<close>

definition any_request :: request where
  "any_request =
     \<lparr>params = [(''id'', ''e1''), (''text'', ''launch''), (''host'', ''u1''),
                (''participant'', ''u1''), (''user'', ''u1'')],
      body = JObj [(''name'', JStr ''Renamed'')]\<rparr>"

definition patch_request :: "string \<Rightarrow> string \<Rightarrow> request" where
  "patch_request i path =
     \<lparr>params = [(''id'', i)],
      body = JArr [JObj [(''op'', JStr ''replace''), (''path'', JStr path),
                         (''value'', JStr ''Renamed'')]]\<rparr>"

section \<open>Properties\<close>

subsection \<open>The pipelines, stage by stage\<close>

lemmas stage_defs = then_p_def catch_p_def exec_query_def exec_update_def or_default_def
  res_write_def respondWithResult_def patchUpdates_def removeEntity_def
  handleEntityNotFound_def handleError_def

lemma truthy_not_nullish: "truthy v \<Longrightarrow> v \<noteq> JNull \<and> v \<noteq> JUndefined"
  by auto

lemma map_of_without: "map_of (without k kvs) k = None"
  by (induction kvs) (auto simp: without_def)

lemma map_of_without_other: "k' \<noteq> k \<Longrightarrow> map_of (without k kvs) k' = map_of kvs k'"
  by (induction kvs) (auto simp: without_def)

lemma strip_id_truthy:
  "map_of kvs ''_id'' = Some v \<Longrightarrow> truthy v \<Longrightarrow> strip_id (JObj kvs) = Inr (JObj (without ''_id'' kvs))"
  by (simp add: strip_id_def)

lemma strip_id_falsy:
  "map_of kvs ''_id'' = Some v \<Longrightarrow> \<not> truthy v \<Longrightarrow> strip_id (JObj kvs) = Inr (JObj kvs)"
  by (simp add: strip_id_def)

lemma strip_id_absent: "map_of kvs ''_id'' = None \<Longrightarrow> strip_id (JObj kvs) = Inr (JObj kvs)"
  by (simp add: strip_id_def)

lemma strip_id_array: "strip_id (JArr ops) = Inr (JArr ops)"
  by (simp add: strip_id_def)

lemma strip_id_object: "strip_id (JObj kvs) = Inr (JObj kvs) \<or> strip_id (JObj kvs) = Inr (JObj (without ''_id'' kvs))"
  by (simp add: strip_id_def)

text \<open>The list handlers: one query, answered.\<close>

lemma index_answered:
  "index M req w = Inr (answered 200 (Event_find M Everything [populate_host] (store w), store w) w)"
  by (simp add: index_def answered_def stage_defs split: sum.splits)

lemma hosting_answered:
  "hosting M req w =
     Inr (answered 200 (Event_find M (HostIs (param req ''host'')) [populate_host] (store w), store w) w)"
  by (simp add: hosting_def answered_def stage_defs split: sum.splits)

lemma going_answered:
  "going M req w =
     Inr (answered 200
       (Event_find M (ParticipantUser (param req ''participant'')) [populate_host] (store w),
        store w) w)"
  by (simp add: going_def answered_def stage_defs split: sum.splits)

lemma favorite_answered:
  "favorite M req w =
     Inr (answered 200
       (Event_find M (FavoritesBy (param req ''user'')) [populate_host] (store w), store w) w)"
  by (simp add: favorite_def answered_def stage_defs split: sum.splits)

lemma search_answered:
  "search M req w =
     (case RegExp_new M (param req ''text'') ''i'' of
        Inl e \<Rightarrow> Inl e
      | Inr re \<Rightarrow>
          Inr (answered 200 (Event_find M (NameRegex re) [populate_host] (store w), store w) w))"
  by (simp add: search_def answered_def stage_defs split: sum.splits)

lemma create_answered:
  "create M req w = Inr (answered 201 (Event_create M (body req) (store w)) w)"
  by (simp add: create_def answered_def stage_defs split: sum.splits prod.splits)

lemma upsert_answered:
  fixes M :: "('s, 'x, 'r) env"
  assumes "strip_id (body req) = (Inr b :: 'x error + jsval)"
  shows "upsert M req w =
    Inr (answered 200
      (Event_findOneAndUpdate M (param req ''id'') b upsert_options (store w)) w)"
  by (simp add: upsert_def assms answered_def stage_defs split: sum.splits prod.splits)

lemma upsert_throws:
  fixes M :: "('s, 'x, 'r) env"
  assumes "strip_id (body req) = (Inl e :: 'x error + jsval)"
  shows "upsert M req w = Inl e"
  by (simp add: upsert_def assms)

lemma patch_throws:
  fixes M :: "('s, 'x, 'r) env"
  assumes "strip_id (body req) = (Inl e :: 'x error + jsval)"
  shows "patch M req w = Inl e"
  by (simp add: patch_def assms)

text \<open>The handlers that fetch an entity first.\<close>

lemma show_rejected:
  assumes "Event_findById M (param req ''id'') [populate_host, populate_participants] (store w)
             = Inl e"
  shows "show_handler M req w = Inr (w\<lparr>res := res w @ [Response 500 (SendBody e)]\<rparr>)"
  by (simp add: show_handler_def assms stage_defs)

lemma show_found:
  assumes "Event_findById M (param req ''id'') [populate_host, populate_participants] (store w)
             = Inr ent"
    and "truthy ent"
  shows "show_handler M req w = Inr (w\<lparr>res := res w @ [Response 200 (JsonBody ent)]\<rparr>)"
  by (simp add: show_handler_def assms stage_defs)

lemma show_not_found:
  assumes "Event_findById M (param req ''id'') [populate_host, populate_participants] (store w)
             = Inr ent"
    and "\<not> truthy ent"
  shows "show_handler M req w = Inr (w\<lparr>res := res w @ [Response 404 NoBody]\<rparr>)"
  by (simp add: show_handler_def assms stage_defs)

lemma destroy_rejected:
  assumes "Event_findById M (param req ''id'') [] (store w) = Inl e"
  shows "destroy M req w = Inr (w\<lparr>res := res w @ [Response 500 (SendBody e)]\<rparr>)"
  by (simp add: destroy_def assms stage_defs)

lemma destroy_not_found:
  assumes "Event_findById M (param req ''id'') [] (store w) = Inr ent" and "\<not> truthy ent"
  shows "destroy M req w = Inr (w\<lparr>res := res w @ [Response 404 NoBody]\<rparr>)"
  by (simp add: destroy_def assms stage_defs)

lemma destroy_found:
  assumes "Event_findById M (param req ''id'') [] (store w) = Inr ent" and "truthy ent"
  shows "destroy M req w =
    Inr (case entity_remove M ent (store w) of
           (Inl e, s') \<Rightarrow> w\<lparr>store := s', res := res w @ [Response 500 (SendBody e)]\<rparr>
         | (Inr v, s') \<Rightarrow> w\<lparr>store := s', res := res w @ [Response 204 NoBody]\<rparr>)"
  by (simp add: destroy_def assms stage_defs split: sum.splits prod.splits)

lemma patch_rejected:
  fixes M :: "('s, 'x, 'r) env"
  assumes "strip_id (body req) = (Inr b :: 'x error + jsval)"
    and "Event_findById M (param req ''id'') [] (store w) = Inl e"
  shows "patch M req w = Inr (w\<lparr>res := res w @ [Response 500 (SendBody e)]\<rparr>)"
  by (simp add: patch_def assms stage_defs)

lemma patch_found:
  fixes M :: "('s, 'x, 'r) env"
  assumes "strip_id (body req) = (Inr b :: 'x error + jsval)"
    and "Event_findById M (param req ''id'') [] (store w) = Inr ent" and "truthy ent"
  shows "patch M req w =
    Inr (case jsonpatch_apply M ent b True of
           Inl err \<Rightarrow> w\<lparr>res := res w @ [Response 500 (SendBody err)]\<rparr>
         | Inr ent' \<Rightarrow> answered 200 (entity_save M ent' (store w)) w)"
proof -
  have "ent \<noteq> JNull" and "ent \<noteq> JUndefined"
    using assms(3) by auto
  then show ?thesis
    by (simp add: patch_def assms answered_def stage_defs split: sum.splits prod.splits)
qed

lemma patch_not_found:
  fixes M :: "('s, 'x, 'r) env"
  assumes "strip_id (body req) = (Inr b :: 'x error + jsval)"
    and "Event_findById M (param req ''id'') [] (store w) = Inr ent" and "\<not> truthy ent"
  shows "patch M req w =
    Inr (w\<lparr>res := res w @
      [Response 404 NoBody,
       Response 500 (SendBody (case jsonpatch_apply M JNull b True of
                                 Inl err \<Rightarrow> err
                               | Inr ent' \<Rightarrow> TypeError))]\<rparr>)"
  by (simp add: patch_def assms stage_defs split: sum.splits)

subsection \<open>Running the in-memory environment\<close>

lemmas memory_defs = memory_env_def no_faults_def memory_find_def memory_findById_def
  memory_create_def memory_findOneAndUpdate_def memory_save_def memory_remove_def
  memory_apply_def memory_RegExp_def apply_operation_def field_def without_def set_fields_def
  canonical_def to_upper_def syntax_characters_def malformed_def fresh_id_def param_def
  upsert_options_def populate_host_def populate_participants_def launch_def picnic_def
  two_events_def all_down_def down_def any_request_def patch_request_def Let_def

subsection \<open>Status codes\<close>

lemma answered_writes:
  assumes "w' = answered c r w" and "c = 200 \<or> c = 201"
  shows "\<exists>new. res w' = res w @ new \<and>
               (\<forall>x\<in>set new. status x \<in> {200, 201, 204, 404, 500})"
  using assms by (auto simp: answered_def split: sum.splits prod.splits)

lemma index_writes:
  assumes "index M req w = Inr w'"
  shows "\<exists>new. res w' = res w @ new \<and> (\<forall>x\<in>set new. status x \<in> {200, 201, 204, 404, 500})"
proof -
  from assms
  have "w' = answered 200 (Event_find M Everything [populate_host] (store w), store w) w"
    by (simp add: index_answered)
  then show ?thesis by (rule answered_writes) simp
qed

lemma hosting_writes:
  assumes "hosting M req w = Inr w'"
  shows "\<exists>new. res w' = res w @ new \<and> (\<forall>x\<in>set new. status x \<in> {200, 201, 204, 404, 500})"
proof -
  from assms
  have "w' = answered 200
          (Event_find M (HostIs (param req ''host'')) [populate_host] (store w), store w) w"
    by (simp add: hosting_answered)
  then show ?thesis by (rule answered_writes) simp
qed

lemma going_writes:
  assumes "going M req w = Inr w'"
  shows "\<exists>new. res w' = res w @ new \<and> (\<forall>x\<in>set new. status x \<in> {200, 201, 204, 404, 500})"
proof -
  from assms
  have "w' = answered 200
          (Event_find M (ParticipantUser (param req ''participant'')) [populate_host] (store w),
           store w) w"
    by (simp add: going_answered)
  then show ?thesis by (rule answered_writes) simp
qed

lemma favorite_writes:
  assumes "favorite M req w = Inr w'"
  shows "\<exists>new. res w' = res w @ new \<and> (\<forall>x\<in>set new. status x \<in> {200, 201, 204, 404, 500})"
proof -
  from assms
  have "w' = answered 200
          (Event_find M (FavoritesBy (param req ''user'')) [populate_host] (store w), store w) w"
    by (simp add: favorite_answered)
  then show ?thesis by (rule answered_writes) simp
qed

lemma search_writes:
  assumes "search M req w = Inr w'"
  shows "\<exists>new. res w' = res w @ new \<and> (\<forall>x\<in>set new. status x \<in> {200, 201, 204, 404, 500})"
proof (cases "RegExp_new M (param req ''text'') ''i''")
  case (Inl e)
  with assms show ?thesis by (simp add: search_answered)
next
  case (Inr re)
  with assms
  have "w' = answered 200 (Event_find M (NameRegex re) [populate_host] (store w), store w) w"
    by (simp add: search_answered)
  then show ?thesis by (rule answered_writes) simp
qed

lemma create_writes:
  assumes "create M req w = Inr w'"
  shows "\<exists>new. res w' = res w @ new \<and> (\<forall>x\<in>set new. status x \<in> {200, 201, 204, 404, 500})"
proof -
  from assms have "w' = answered 201 (Event_create M (body req) (store w)) w"
    by (simp add: create_answered)
  then show ?thesis by (rule answered_writes) simp
qed

lemma upsert_writes:
  fixes M :: "('s, 'x, 'r) env"
  assumes "upsert M req w = Inr w'"
  shows "\<exists>new. res w' = res w @ new \<and> (\<forall>x\<in>set new. status x \<in> {200, 201, 204, 404, 500})"
proof (cases "strip_id (body req) :: 'x error + jsval")
  case (Inl e)
  with assms show ?thesis by (simp add: upsert_throws)
next
  case (Inr b)
  with assms
  have "w' = answered 200
          (Event_findOneAndUpdate M (param req ''id'') b upsert_options (store w)) w"
    by (simp add: upsert_answered)
  then show ?thesis by (rule answered_writes) simp
qed

lemma show_writes:
  assumes "show_handler M req w = Inr w'"
  shows "\<exists>new. res w' = res w @ new \<and> (\<forall>x\<in>set new. status x \<in> {200, 201, 204, 404, 500})"
proof (cases "Event_findById M (param req ''id'') [populate_host, populate_participants] (store w)")
  case (Inl e)
  with assms show ?thesis by (auto simp: show_rejected)
next
  case (Inr ent)
  with assms show ?thesis
    by (cases "truthy ent") (auto simp: show_found show_not_found)
qed

lemma destroy_writes:
  assumes "destroy M req w = Inr w'"
  shows "\<exists>new. res w' = res w @ new \<and> (\<forall>x\<in>set new. status x \<in> {200, 201, 204, 404, 500})"
proof (cases "Event_findById M (param req ''id'') [] (store w)")
  case (Inl e)
  with assms show ?thesis by (auto simp: destroy_rejected)
next
  case (Inr ent)
  with assms show ?thesis
    by (cases "truthy ent") (auto simp: destroy_found destroy_not_found split: sum.splits prod.splits)
qed

lemma patch_writes:
  fixes M :: "('s, 'x, 'r) env"
  assumes "patch M req w = Inr w'"
  shows "\<exists>new. res w' = res w @ new \<and> (\<forall>x\<in>set new. status x \<in> {200, 201, 204, 404, 500})"
proof (cases "strip_id (body req) :: 'x error + jsval")
  case (Inl e)
  with assms show ?thesis by (simp add: patch_throws)
next
  case b: (Inr b)
  show ?thesis
  proof (cases "Event_findById M (param req ''id'') [] (store w)")
    case (Inl e)
    with assms b show ?thesis by (auto simp: patch_rejected)
  next
    case (Inr ent)
    show ?thesis
    proof (cases "truthy ent")
      case True
      show ?thesis
      proof (cases "jsonpatch_apply M ent b True")
        case (Inl err)
        with assms b Inr True show ?thesis by (auto simp: patch_found)
      next
        case applied: (Inr ent')
        with assms b Inr True
        have "w' = answered 200 (entity_save M ent' (store w)) w"
          by (simp add: patch_found)
        then show ?thesis by (rule answered_writes) simp
      qed
    next
      case False
      with assms b Inr show ?thesis by (auto simp: patch_not_found)
    qed
  qed
qed

text \<open>
  C5. Whatever a handler writes on the response has one of the status codes 200, 201, 204,
  404 and 500: the world it returns has the responses it started with, followed by
  responses with these codes only. (A handler that throws returns no world and has written
  nothing.)
\<close>

theorem handlers_write_module_statuses:
  assumes "handle ep M req w = Inr w'"
  shows "\<exists>new. res w' = res w @ new \<and> (\<forall>x\<in>set new. status x \<in> {200, 201, 204, 404, 500})"
proof (cases ep)
  case Index
  with assms have "index M req w = Inr w'" by simp
  then show ?thesis by (rule index_writes)
next
  case Show
  with assms have "show_handler M req w = Inr w'" by simp
  then show ?thesis by (rule show_writes)
next
  case Create
  with assms have "create M req w = Inr w'" by simp
  then show ?thesis by (rule create_writes)
next
  case Upsert
  with assms have "upsert M req w = Inr w'" by simp
  then show ?thesis by (rule upsert_writes)
next
  case Patch
  with assms have "patch M req w = Inr w'" by simp
  then show ?thesis by (rule patch_writes)
next
  case Destroy
  with assms have "destroy M req w = Inr w'" by simp
  then show ?thesis by (rule destroy_writes)
next
  case Search
  with assms have "search M req w = Inr w'" by simp
  then show ?thesis by (rule search_writes)
next
  case Hosting
  with assms have "hosting M req w = Inr w'" by simp
  then show ?thesis by (rule hosting_writes)
next
  case Going
  with assms have "going M req w = Inr w'" by simp
  then show ?thesis by (rule going_writes)
next
  case Favorite
  with assms have "favorite M req w = Inr w'" by simp
  then show ?thesis by (rule favorite_writes)
qed

subsection \<open>Creation\<close>

text \<open>
  C10. \<open>create\<close> hands the request body to the store's insert operation as it is: the
  handler is the insert of \<open>body req\<close>, answered with 201 or 500. Nothing is stripped,
  so a member \<open>_id\<close> of the body reaches the store.
\<close>

theorem create_passes_body_unchanged:
  "create M req w = Inr (answered 201 (Event_create M (body req) (store w)) w)"
  by (rule create_answered)

theorem create_passes_body_unchanged_witness:
  "create (memory_env no_faults)
     \<lparr>params = [], body = JObj [(''_id'', JStr ''mine''), (''name'', JStr ''Launch Party'')]\<rparr>
     \<lparr>store = [], res = []\<rparr> =
   Inr \<lparr>store = [(''mine'', JObj [(''_id'', JStr ''mine''), (''name'', JStr ''Launch Party'')])],
        res = [Response 201
                 (JsonBody (JObj [(''_id'', JStr ''mine''), (''name'', JStr ''Launch Party'')]))]\<rparr>"
  using create_passes_body_unchanged [of "memory_env no_faults"
      "\<lparr>params = [], body = JObj [(''_id'', JStr ''mine''), (''name'', JStr ''Launch Party'')]\<rparr>"
      "\<lparr>store = [], res = []\<rparr>"]
  by (simp add: memory_defs answered_def)

subsection \<open>The identifier in the body\<close>

text \<open>
  What the stripping step achieves. When the body of an \<open>upsert\<close> or \<open>patch\<close> request
  on the URL identifier \<open>param req ''id''\<close> is an object with a member \<open>_id\<close> of truthy
  value (such as \<open>"other"\<close>), the store is asked to update the document with the URL
  identifier, with the body from which \<open>_id\<close> has been removed, and \<open>patch\<close> gives
  the applier the body without \<open>_id\<close>.
\<close>

lemma truthy_body_id_is_stripped:
  fixes M :: "('s, 'x, 'r) env"
  assumes "body req = JObj kvs" and "map_of kvs ''_id'' = Some v" and "truthy v"
  shows "upsert M req w =
           Inr (answered 200
             (Event_findOneAndUpdate M (param req ''id'') (JObj (without ''_id'' kvs))
                upsert_options (store w)) w)
       \<and> map_of (without ''_id'' kvs) ''_id'' = None
       \<and> patch M req w = patch M (req\<lparr>body := JObj (without ''_id'' kvs)\<rparr>) w
       \<and> (Event_findById M (param req ''id'') [] (store w) = Inr ent \<and> truthy ent \<longrightarrow>
            patch M req w =
              Inr (case jsonpatch_apply M ent (JObj (without ''_id'' kvs)) True of
                     Inl err \<Rightarrow> w\<lparr>res := res w @ [Response 500 (SendBody err)]\<rparr>
                   | Inr ent' \<Rightarrow> answered 200 (entity_save M ent' (store w)) w))"
proof -
  have strip: "strip_id (body req) = (Inr (JObj (without ''_id'' kvs)) :: 'x error + jsval)"
    using assms by (simp add: strip_id_truthy)
  have strip': "strip_id (JObj (without ''_id'' kvs))
                  = (Inr (JObj (without ''_id'' kvs)) :: 'x error + jsval)"
    by (simp add: strip_id_absent map_of_without)
  have "upsert M req w =
           Inr (answered 200
             (Event_findOneAndUpdate M (param req ''id'') (JObj (without ''_id'' kvs))
                upsert_options (store w)) w)"
    using strip by (rule upsert_answered)
  moreover have "patch M req w = patch M (req\<lparr>body := JObj (without ''_id'' kvs)\<rparr>) w"
    by (simp add: patch_def strip strip' param_def)
  moreover have "Event_findById M (param req ''id'') [] (store w) = Inr ent \<and> truthy ent \<longrightarrow>
            patch M req w =
              Inr (case jsonpatch_apply M ent (JObj (without ''_id'' kvs)) True of
                     Inl err \<Rightarrow> w\<lparr>res := res w @ [Response 500 (SendBody err)]\<rparr>
                   | Inr ent' \<Rightarrow> answered 200 (entity_save M ent' (store w)) w)"
    using strip by (auto dest: patch_found)
  ultimately show ?thesis by (simp add: map_of_without)
qed

lemma upsert_ignores_body_id:
  "upsert (memory_env no_faults)
     \<lparr>params = [(''id'', ''A'')], body = JObj [(''_id'', JStr ''other''), (''name'', JStr ''x'')]\<rparr>
     \<lparr>store = [], res = []\<rparr> =
   Inr \<lparr>store = [(''A'', JObj [(''_id'', JStr ''A''), (''name'', JStr ''x'')])],
        res = [Response 200 (JsonBody (JObj [(''_id'', JStr ''A''), (''name'', JStr ''x'')]))]\<rparr>"
  by (simp add: upsert_answered strip_id_def answered_def memory_defs)

text \<open>
  C1. A client-supplied identifier in the body must never change the identifier of the
  resource. For \<open>patch\<close> the code does not ensure it. The body of a patch request is an
  array of operations, and the stripping step, which looks for a member \<open>_id\<close> of the
  body, does nothing on an array. An operation on the path \<open>/_id\<close> is therefore applied
  to the entity that was fetched by the URL identifier, and the entity as the applier left
  it, under the identifier the client supplied, is the one that is saved and answered
  with 200.
\<close>

theorem patch_saves_entity_under_supplied_id:
  fixes M :: "('s, 'x, 'r) env"
  assumes "body req = JArr ops"
    and "Event_findById M (param req ''id'') [] (store w) = Inr ent"
    and "truthy ent"
    and "jsonpatch_apply M ent (JArr ops) True = Inr ent'"
  shows "patch M req w = Inr (answered 200 (entity_save M ent' (store w)) w)"
proof -
  have "strip_id (body req) = (Inr (JArr ops) :: 'x error + jsval)"
    using assms(1) by (simp add: strip_id_array)
  from patch_found [OF this assms(2) assms(3)] assms(4) show ?thesis
    by simp
qed

text \<open>
  In the in-memory store: a patch of \<open>e1\<close> that replaces \<open>/_id\<close> by \<open>e2\<close> is
  answered 200 and leaves the entity of \<open>e1\<close> stored under \<open>e2\<close>, in place of the
  document that was there.
\<close>

theorem patch_saves_entity_under_supplied_id_witness:
  "patch (memory_env no_faults)
     \<lparr>params = [(''id'', ''e1'')],
      body = JArr [JObj [(''op'', JStr ''replace''), (''path'', JStr ''/_id''),
                         (''value'', JStr ''e2'')]]\<rparr>
     \<lparr>store = two_events, res = []\<rparr> =
   Inr \<lparr>store =
          [(''e2'', JObj [(''_id'', JStr ''e2''), (''name'', JStr ''Launch Party''),
                          (''host'', JStr ''u1'')]),
           (''e1'', launch)],
        res = [Response 200
                 (JsonBody (JObj [(''_id'', JStr ''e2''), (''name'', JStr ''Launch Party''),
                                  (''host'', JStr ''u1'')]))]\<rparr>"
  using patch_saves_entity_under_supplied_id [where M = "memory_env no_faults"
      and req = "\<lparr>params = [(''id'', ''e1'')],
                  body = JArr [JObj [(''op'', JStr ''replace''), (''path'', JStr ''/_id''),
                                     (''value'', JStr ''e2'')]]\<rparr>"
      and ops = "[JObj [(''op'', JStr ''replace''), (''path'', JStr ''/_id''),
                        (''value'', JStr ''e2'')]]"
      and w = "\<lparr>store = two_events, res = []\<rparr>" and ent = launch
      and ent' = "JObj [(''_id'', JStr ''e2''), (''name'', JStr ''Launch Party''),
                        (''host'', JStr ''u1'')]"]
  by (simp add: memory_defs answered_def)

text \<open>
  C9. The member \<open>_id\<close> is deleted only when its value is truthy. When the body has a
  member \<open>_id\<close> with a falsy value (the empty string, 0, false and null are falsy), the body
  is left as it is, member \<open>_id\<close> included, and that body is what \<open>upsert\<close> passes to the
  store's update and what \<open>patch\<close> passes to the patch applier.
\<close>

theorem falsy_body_id_is_kept:
  fixes M :: "('s, 'x, 'r) env"
  assumes "body req = JObj kvs" and "map_of kvs ''_id'' = Some v" and "\<not> truthy v"
  shows "strip_id (body req) = (Inr (JObj kvs) :: 'x error + jsval)
       \<and> upsert M req w =
           Inr (answered 200
             (Event_findOneAndUpdate M (param req ''id'') (JObj kvs) upsert_options (store w)) w)
       \<and> (Event_findById M (param req ''id'') [] (store w) = Inr ent \<and> truthy ent \<longrightarrow>
            patch M req w =
              Inr (case jsonpatch_apply M ent (JObj kvs) True of
                     Inl err \<Rightarrow> w\<lparr>res := res w @ [Response 500 (SendBody err)]\<rparr>
                   | Inr ent' \<Rightarrow> answered 200 (entity_save M ent' (store w)) w))
       \<and> \<not> truthy (JStr []) \<and> \<not> truthy (JNum 0) \<and> \<not> truthy (JBool False) \<and> \<not> truthy JNull"
proof -
  have strip: "strip_id (body req) = (Inr (JObj kvs) :: 'x error + jsval)"
    using assms by (simp add: strip_id_falsy)
  have "upsert M req w =
           Inr (answered 200
             (Event_findOneAndUpdate M (param req ''id'') (JObj kvs) upsert_options (store w)) w)"
    using strip by (rule upsert_answered)
  moreover have "Event_findById M (param req ''id'') [] (store w) = Inr ent \<and> truthy ent \<longrightarrow>
            patch M req w =
              Inr (case jsonpatch_apply M ent (JObj kvs) True of
                     Inl err \<Rightarrow> w\<lparr>res := res w @ [Response 500 (SendBody err)]\<rparr>
                   | Inr ent' \<Rightarrow> answered 200 (entity_save M ent' (store w)) w)"
    using strip by (auto dest: patch_found)
  ultimately show ?thesis using strip by simp
qed

theorem falsy_body_id_is_kept_witness:
  "map_of [(''_id'', JNum 0), (''name'', JStr ''x'')] ''_id'' = Some (JNum 0)
   \<and> \<not> truthy (JNum 0)
   \<and> upsert (memory_env no_faults)
       \<lparr>params = [(''id'', ''e2'')], body = JObj [(''_id'', JNum 0), (''name'', JStr ''x'')]\<rparr>
       \<lparr>store = two_events, res = []\<rparr> =
     Inr \<lparr>store = two_events, res = [Response 500 (SendBody (Failure ''ImmutableField''))]\<rparr>"
  using falsy_body_id_is_kept [of
      "\<lparr>params = [(''id'', ''e2'')], body = JObj [(''_id'', JNum 0), (''name'', JStr ''x'')]\<rparr>"
      "[(''_id'', JNum 0), (''name'', JStr ''x'')]" "JNum 0"
      "memory_env no_faults" "\<lparr>store = two_events, res = []\<rparr>"]
  by (simp add: memory_defs answered_def)

text \<open>
  C8. The stripping step removes at most the member \<open>_id\<close> of the body itself. A patch body
  is an array of operations, which has no such member: the step leaves it as it is, and
  \<open>patch\<close> passes the whole array to the patch applier, an operation on the path
  \<open>/_id\<close> included.
\<close>

theorem patch_operations_reach_applier:
  fixes M :: "('s, 'x, 'r) env"
  assumes "body req = JArr ops"
  shows "strip_id (body req) = (Inr (JArr ops) :: 'x error + jsval)
       \<and> (Event_findById M (param req ''id'') [] (store w) = Inr ent \<and> truthy ent \<longrightarrow>
            patch M req w =
              Inr (case jsonpatch_apply M ent (JArr ops) True of
                     Inl err \<Rightarrow> w\<lparr>res := res w @ [Response 500 (SendBody err)]\<rparr>
                   | Inr ent' \<Rightarrow> answered 200 (entity_save M ent' (store w)) w))
       \<and> (strip_id (JObj kvs) = (Inr (JObj kvs) :: 'x error + jsval)
            \<or> strip_id (JObj kvs) = (Inr (JObj (without ''_id'' kvs)) :: 'x error + jsval))"
proof -
  have strip: "strip_id (body req) = (Inr (JArr ops) :: 'x error + jsval)"
    using assms by (simp add: strip_id_array)
  have "Event_findById M (param req ''id'') [] (store w) = Inr ent \<and> truthy ent \<longrightarrow>
            patch M req w =
              Inr (case jsonpatch_apply M ent (JArr ops) True of
                     Inl err \<Rightarrow> w\<lparr>res := res w @ [Response 500 (SendBody err)]\<rparr>
                   | Inr ent' \<Rightarrow> answered 200 (entity_save M ent' (store w)) w)"
    using strip by (auto dest: patch_found)
  then show ?thesis using strip strip_id_object [of kvs] by simp
qed

theorem patch_operations_reach_applier_witness:
  "patch (memory_env no_faults)
     \<lparr>params = [(''id'', ''e1'')],
      body = JArr [JObj [(''op'', JStr ''replace''), (''path'', JStr ''/_id''),
                         (''value'', JStr ''other'')]]\<rparr>
     \<lparr>store = two_events, res = []\<rparr> =
   Inr \<lparr>store = two_events,
        res = [Response 500 (SendBody (Failure ''DocumentNotFoundError''))]\<rparr>"
  using patch_operations_reach_applier [of
      "\<lparr>params = [(''id'', ''e1'')],
        body = JArr [JObj [(''op'', JStr ''replace''), (''path'', JStr ''/_id''),
                           (''value'', JStr ''other'')]]\<rparr>"
      "[JObj [(''op'', JStr ''replace''), (''path'', JStr ''/_id''), (''value'', JStr ''other'')]]"
      "memory_env no_faults" "\<lparr>store = two_events, res = []\<rparr>" launch "[]"]
  by (simp add: memory_defs answered_def)

subsection \<open>A failed patch\<close>

text \<open>
  C2. When the entity was found and applying the patch operations to it fails, \<open>patch\<close>
  responds 500 with the error of the patch applier and returns the store as it was. The
  save is not invoked: the outcome is the same whatever \<open>entity_save\<close> would do.
\<close>

theorem failed_patch_is_not_saved:
  fixes M :: "('s, 'x, 'r) env"
  assumes "strip_id (body req) = (Inr patches :: 'x error + jsval)"
    and "Event_findById M (param req ''id'') [] (store w) = Inr ent"
    and "truthy ent"
    and "jsonpatch_apply M ent patches True = Inl err"
  shows "patch M req w = Inr (w\<lparr>res := res w @ [Response 500 (SendBody err)]\<rparr>)
       \<and> patch (M\<lparr>entity_save := sv\<rparr>) req w = patch M req w"
proof -
  have "patch M req w = Inr (w\<lparr>res := res w @ [Response 500 (SendBody err)]\<rparr>)"
    using assms by (simp add: patch_found)
  moreover
  have "patch (M\<lparr>entity_save := sv\<rparr>) req w
          = Inr (w\<lparr>res := res w @ [Response 500 (SendBody err)]\<rparr>)"
    using assms by (simp add: patch_found)
  ultimately show ?thesis by simp
qed

theorem failed_patch_is_not_saved_witness:
  "patch (memory_env no_faults) (patch_request ''e1'' ''/nope'')
     \<lparr>store = two_events, res = []\<rparr>
   = Inr \<lparr>store = two_events,
          res = [Response 500 (SendBody (Failure ''OPERATION_PATH_UNRESOLVABLE''))]\<rparr>
   \<and> patch ((memory_env no_faults)\<lparr>entity_save := \<lambda>entity s. (Inr entity, [])\<rparr>)
       (patch_request ''e1'' ''/nope'') \<lparr>store = two_events, res = []\<rparr>
     = Inr \<lparr>store = two_events,
            res = [Response 500 (SendBody (Failure ''OPERATION_PATH_UNRESOLVABLE''))]\<rparr>"
  using failed_patch_is_not_saved [where M = "memory_env no_faults"
      and req = "patch_request ''e1'' ''/nope''"
      and patches = "body (patch_request ''e1'' ''/nope'')"
      and w = "\<lparr>store = two_events, res = []\<rparr>" and ent = launch
      and err = "Failure ''OPERATION_PATH_UNRESOLVABLE''"
      and sv = "\<lambda>entity s. (Inr entity, [])"]
  by (simp add: memory_defs strip_id_def patch_request_def)

subsection \<open>No matching document\<close>

text \<open>
  C3. When the lookup finds no document, \<open>show\<close> and \<open>destroy\<close> respond 404 without a
  body and do nothing else (\<open>show_not_found\<close>, \<open>destroy_not_found\<close>): their next stage
  tests the entity it is given. \<open>patchUpdates\<close> does not. After \<open>patch\<close> has written the
  404, the patch stage runs on \<open>null\<close>; either the patch applier throws, or
  \<open>entity.save()\<close> raises a TypeError; and \<open>handleError\<close> issues a second response
  on the same response object, 500 with that error. The store is not changed.
\<close>

theorem patch_not_found_answers_twice:
  fixes M :: "('s, 'x, 'r) env"
  assumes "strip_id (body req) = (Inr patches :: 'x error + jsval)"
    and "Event_findById M (param req ''id'') [] (store w) = Inr ent"
    and "\<not> truthy ent"
  shows "patch M req w =
    Inr (w\<lparr>res := res w @
      [Response 404 NoBody,
       Response 500 (SendBody (case jsonpatch_apply M JNull patches True of
                                 Inl err \<Rightarrow> err
                               | Inr ent' \<Rightarrow> TypeError))]\<rparr>)"
  using assms by (rule patch_not_found)

theorem patch_not_found_answers_twice_witness:
  "patch (memory_env no_faults) (patch_request ''e9'' ''/name'')
     \<lparr>store = two_events, res = []\<rparr>
   = Inr \<lparr>store = two_events,
          res = [Response 404 NoBody, Response 500 (SendBody TypeError)]\<rparr>"
  using patch_not_found_answers_twice [where M = "memory_env no_faults"
      and req = "patch_request ''e9'' ''/name''"
      and patches = "body (patch_request ''e9'' ''/name'')"
      and w = "\<lparr>store = two_events, res = []\<rparr>" and ent = JNull]
  by (simp add: memory_defs strip_id_def patch_request_def)

subsection \<open>Deleting\<close>

text \<open>
  C6. For an identifier whose entity is found, \<open>destroy\<close> removes the entity from the
  store. When the removal succeeds it then responds 204 without a body, in the store the
  removal left; when the removal fails it responds 500 with the error and no 204 is
  written. A later \<open>show\<close> of the same identifier, in the store the removal left, finds
  no document there and responds 404.
\<close>

theorem destroy_removes_then_answers_204:
  assumes "Event_findById M (param req ''id'') [] (store w) = Inr ent" and "truthy ent"
  shows "(entity_remove M ent (store w) = (Inr v, s') \<longrightarrow>
            destroy M req w = Inr (w\<lparr>store := s', res := res w @ [Response 204 NoBody]\<rparr>)
          \<and> (Event_findById M (param req ''id'') [populate_host, populate_participants] s'
                = Inr gone \<and> \<not> truthy gone \<longrightarrow>
              show_handler M req \<lparr>store = s', res = []\<rparr>
                = Inr \<lparr>store = s', res = [Response 404 NoBody]\<rparr>))
       \<and> (entity_remove M ent (store w) = (Inl e, s'') \<longrightarrow>
            destroy M req w
              = Inr (w\<lparr>store := s'', res := res w @ [Response 500 (SendBody e)]\<rparr>))"
proof -
  have "Event_findById M (param req ''id'') [populate_host, populate_participants] s'
                = Inr gone \<and> \<not> truthy gone \<longrightarrow>
              show_handler M req \<lparr>store = s', res = []\<rparr>
                = Inr \<lparr>store = s', res = [Response 404 NoBody]\<rparr>"
    using show_not_found [of M req "\<lparr>store = s', res = []\<rparr>" gone] by simp
  then show ?thesis using assms by (simp add: destroy_found)
qed

text \<open>In the in-memory store the removed document is gone, whatever the store held.\<close>

lemma memory_destroy_then_show:
  assumes "map_of s k = Some d" and "field d ''_id'' = JStr k"
  shows "destroy (memory_env no_faults) \<lparr>params = [(''id'', k)], body = b\<rparr>
           \<lparr>store = s, res = []\<rparr>
         = Inr \<lparr>store = without k s, res = [Response 204 NoBody]\<rparr>"
    and "show_handler (memory_env no_faults) \<lparr>params = [(''id'', k)], body = b\<rparr>
           \<lparr>store = without k s, res = []\<rparr>
         = Inr \<lparr>store = without k s, res = [Response 404 NoBody]\<rparr>"
proof -
  have d: "truthy d"
    using assms(2) by (cases d) (auto simp: field_def)
  have found: "Event_findById (memory_env no_faults)
                 (param \<lparr>params = [(''id'', k)], body = b\<rparr> ''id'') []
                 (store \<lparr>store = s, res = ([] :: string response list)\<rparr>) = Inr d"
    using assms(1) by (simp add: memory_env_def memory_findById_def no_faults_def param_def)
  show "destroy (memory_env no_faults) \<lparr>params = [(''id'', k)], body = b\<rparr>
           \<lparr>store = s, res = []\<rparr>
         = Inr \<lparr>store = without k s, res = [Response 204 NoBody]\<rparr>"
    using assms(2) unfolding destroy_found [OF found d]
    by (simp add: memory_env_def memory_remove_def no_faults_def)
  have "Event_findById (memory_env no_faults)
          (param \<lparr>params = [(''id'', k)], body = b\<rparr> ''id'')
          [populate_host, populate_participants]
          (store \<lparr>store = without k s, res = ([] :: string response list)\<rparr>) = Inr JNull"
    by (simp add: memory_env_def memory_findById_def no_faults_def param_def
        map_of_without)
  then show "show_handler (memory_env no_faults) \<lparr>params = [(''id'', k)], body = b\<rparr>
           \<lparr>store = without k s, res = []\<rparr>
         = Inr \<lparr>store = without k s, res = [Response 404 NoBody]\<rparr>"
    by (simp add: show_not_found)
qed

theorem destroy_removes_then_answers_204_witness:
  "destroy (memory_env no_faults) \<lparr>params = [(''id'', ''e1'')], body = JObj []\<rparr>
     \<lparr>store = two_events, res = []\<rparr>
     = Inr \<lparr>store = [(''e2'', picnic)], res = [Response 204 NoBody]\<rparr>
   \<and> show_handler (memory_env no_faults) \<lparr>params = [(''id'', ''e1'')], body = JObj []\<rparr>
       \<lparr>store = [(''e2'', picnic)], res = []\<rparr>
     = Inr \<lparr>store = [(''e2'', picnic)], res = [Response 404 NoBody]\<rparr>
   \<and> destroy (memory_env (down OpRemove)) \<lparr>params = [(''id'', ''e1'')], body = JObj []\<rparr>
       \<lparr>store = two_events, res = []\<rparr>
     = Inr \<lparr>store = two_events, res = [Response 500 (SendBody (Failure ''down''))]\<rparr>"
  using
    destroy_removes_then_answers_204 [where M = "memory_env no_faults"
      and req = "\<lparr>params = [(''id'', ''e1'')], body = JObj []\<rparr>"
      and w = "\<lparr>store = two_events, res = []\<rparr>" and ent = launch and v = launch
      and s' = "[(''e2'', picnic)]" and gone = JNull]
    destroy_removes_then_answers_204 [where M = "memory_env (down OpRemove)"
      and req = "\<lparr>params = [(''id'', ''e1'')], body = JObj []\<rparr>"
      and w = "\<lparr>store = two_events, res = []\<rparr>" and ent = launch
      and e = "Failure ''down''" and s'' = two_events]
  by (simp add: memory_env_def no_faults_def down_def memory_findById_def memory_remove_def
      field_def without_def param_def two_events_def launch_def)

subsection \<open>Failures\<close>

text \<open>
  C4. In every handler, when a stage of the pipeline fails (the store rejects a query, an
  insert, an update, a save or a removal; the patch applier throws) and the entity was not
  missing, the handler writes exactly one response: status 500 with the error of that stage
  as its body, the error value itself.
\<close>

theorem stage_failure_answers_500:
  fixes M :: "('s, 'x, 'r) env"
  shows
    "  (Event_find M Everything [populate_host] (store w) = Inl e
        \<longrightarrow> index M req w
              = Inr (w\<lparr>res := res w @ [Response 500 (SendBody e)]\<rparr>))
     \<and> (Event_findById M (param req ''id'') [populate_host, populate_participants] (store w)
          = Inl e
        \<longrightarrow> show_handler M req w
              = Inr (w\<lparr>res := res w @ [Response 500 (SendBody e)]\<rparr>))
     \<and> (Event_create M (body req) (store w) = (Inl e, s')
        \<longrightarrow> create M req w
              = Inr (w\<lparr>store := s', res := res w @ [Response 500 (SendBody e)]\<rparr>))
     \<and> (strip_id (body req) = (Inr b :: 'x error + jsval)
        \<and> Event_findOneAndUpdate M (param req ''id'') b upsert_options (store w) = (Inl e, s')
        \<longrightarrow> upsert M req w
              = Inr (w\<lparr>store := s', res := res w @ [Response 500 (SendBody e)]\<rparr>))
     \<and> (strip_id (body req) = (Inr b :: 'x error + jsval)
        \<and> Event_findById M (param req ''id'') [] (store w) = Inl e
        \<longrightarrow> patch M req w
              = Inr (w\<lparr>res := res w @ [Response 500 (SendBody e)]\<rparr>))
     \<and> (strip_id (body req) = (Inr b :: 'x error + jsval)
        \<and> Event_findById M (param req ''id'') [] (store w) = Inr ent
        \<and> truthy ent
        \<and> jsonpatch_apply M ent b True = Inl e
        \<longrightarrow> patch M req w
              = Inr (w\<lparr>res := res w @ [Response 500 (SendBody e)]\<rparr>))
     \<and> (strip_id (body req) = (Inr b :: 'x error + jsval)
        \<and> Event_findById M (param req ''id'') [] (store w) = Inr ent
        \<and> truthy ent
        \<and> jsonpatch_apply M ent b True = Inr ent'
        \<and> entity_save M ent' (store w) = (Inl e, s')
        \<longrightarrow> patch M req w
              = Inr (w\<lparr>store := s', res := res w @ [Response 500 (SendBody e)]\<rparr>))
     \<and> (Event_findById M (param req ''id'') [] (store w) = Inl e
        \<longrightarrow> destroy M req w
              = Inr (w\<lparr>res := res w @ [Response 500 (SendBody e)]\<rparr>))
     \<and> (Event_findById M (param req ''id'') [] (store w) = Inr ent
        \<and> truthy ent
        \<and> entity_remove M ent (store w) = (Inl e, s')
        \<longrightarrow> destroy M req w
              = Inr (w\<lparr>store := s', res := res w @ [Response 500 (SendBody e)]\<rparr>))
     \<and> (RegExp_new M (param req ''text'') ''i'' = Inr re
        \<and> Event_find M (NameRegex re) [populate_host] (store w) = Inl e
        \<longrightarrow> search M req w
              = Inr (w\<lparr>res := res w @ [Response 500 (SendBody e)]\<rparr>))
     \<and> (Event_find M (HostIs (param req ''host'')) [populate_host] (store w) = Inl e
        \<longrightarrow> hosting M req w
              = Inr (w\<lparr>res := res w @ [Response 500 (SendBody e)]\<rparr>))
     \<and> (Event_find M (ParticipantUser (param req ''participant'')) [populate_host] (store w)
          = Inl e
        \<longrightarrow> going M req w
              = Inr (w\<lparr>res := res w @ [Response 500 (SendBody e)]\<rparr>))
     \<and> (Event_find M (FavoritesBy (param req ''user'')) [populate_host] (store w) = Inl e
        \<longrightarrow> favorite M req w
              = Inr (w\<lparr>res := res w @ [Response 500 (SendBody e)]\<rparr>))"
proof -
  have c_index:
    "Event_find M Everything [populate_host] (store w) = Inl e
      \<longrightarrow> index M req w
            = Inr (w\<lparr>res := res w @ [Response 500 (SendBody e)]\<rparr>)"
    by (simp add: index_answered answered_def)
  have c_show:
    "Event_findById M (param req ''id'') [populate_host, populate_participants] (store w)
          = Inl e
      \<longrightarrow> show_handler M req w
            = Inr (w\<lparr>res := res w @ [Response 500 (SendBody e)]\<rparr>)"
    by (simp add: show_rejected)
  have c_create:
    "Event_create M (body req) (store w) = (Inl e, s')
      \<longrightarrow> create M req w
            = Inr (w\<lparr>store := s', res := res w @ [Response 500 (SendBody e)]\<rparr>)"
    by (simp add: create_answered answered_def)
  have c_upsert:
    "strip_id (body req) = (Inr b :: 'x error + jsval)
      \<and> Event_findOneAndUpdate M (param req ''id'') b upsert_options (store w) = (Inl e, s')
      \<longrightarrow> upsert M req w
            = Inr (w\<lparr>store := s', res := res w @ [Response 500 (SendBody e)]\<rparr>)"
    by (simp add: upsert_answered answered_def)
  have c_patch_fetch:
    "strip_id (body req) = (Inr b :: 'x error + jsval)
      \<and> Event_findById M (param req ''id'') [] (store w) = Inl e
      \<longrightarrow> patch M req w
            = Inr (w\<lparr>res := res w @ [Response 500 (SendBody e)]\<rparr>)"
    by (simp add: patch_rejected)
  have c_patch_apply:
    "strip_id (body req) = (Inr b :: 'x error + jsval)
      \<and> Event_findById M (param req ''id'') [] (store w) = Inr ent
      \<and> truthy ent
      \<and> jsonpatch_apply M ent b True = Inl e
      \<longrightarrow> patch M req w
            = Inr (w\<lparr>res := res w @ [Response 500 (SendBody e)]\<rparr>)"
    by (simp add: patch_found)
  have c_patch_save:
    "strip_id (body req) = (Inr b :: 'x error + jsval)
      \<and> Event_findById M (param req ''id'') [] (store w) = Inr ent
      \<and> truthy ent
      \<and> jsonpatch_apply M ent b True = Inr ent'
      \<and> entity_save M ent' (store w) = (Inl e, s')
      \<longrightarrow> patch M req w
            = Inr (w\<lparr>store := s', res := res w @ [Response 500 (SendBody e)]\<rparr>)"
    by (simp add: patch_found answered_def)
  have c_destroy_fetch:
    "Event_findById M (param req ''id'') [] (store w) = Inl e
      \<longrightarrow> destroy M req w
            = Inr (w\<lparr>res := res w @ [Response 500 (SendBody e)]\<rparr>)"
    by (simp add: destroy_rejected)
  have c_destroy_remove:
    "Event_findById M (param req ''id'') [] (store w) = Inr ent
      \<and> truthy ent
      \<and> entity_remove M ent (store w) = (Inl e, s')
      \<longrightarrow> destroy M req w
            = Inr (w\<lparr>store := s', res := res w @ [Response 500 (SendBody e)]\<rparr>)"
    by (simp add: destroy_found)
  have c_search:
    "RegExp_new M (param req ''text'') ''i'' = Inr re
      \<and> Event_find M (NameRegex re) [populate_host] (store w) = Inl e
      \<longrightarrow> search M req w
            = Inr (w\<lparr>res := res w @ [Response 500 (SendBody e)]\<rparr>)"
    by (simp add: search_answered answered_def)
  have c_hosting:
    "Event_find M (HostIs (param req ''host'')) [populate_host] (store w) = Inl e
      \<longrightarrow> hosting M req w
            = Inr (w\<lparr>res := res w @ [Response 500 (SendBody e)]\<rparr>)"
    by (simp add: hosting_answered answered_def)
  have c_going:
    "Event_find M (ParticipantUser (param req ''participant'')) [populate_host] (store w)
          = Inl e
      \<longrightarrow> going M req w
            = Inr (w\<lparr>res := res w @ [Response 500 (SendBody e)]\<rparr>)"
    by (simp add: going_answered answered_def)
  have c_favorite:
    "Event_find M (FavoritesBy (param req ''user'')) [populate_host] (store w) = Inl e
      \<longrightarrow> favorite M req w
            = Inr (w\<lparr>res := res w @ [Response 500 (SendBody e)]\<rparr>)"
    by (simp add: favorite_answered answered_def)
  show ?thesis
    by (intro conjI)
       (rule c_index,
        rule c_show,
        rule c_create,
        rule c_upsert,
        rule c_patch_fetch,
        rule c_patch_apply,
        rule c_patch_save,
        rule c_destroy_fetch,
        rule c_destroy_remove,
        rule c_search,
        rule c_hosting,
        rule c_going,
        rule c_favorite)
qed

theorem stage_failure_answers_500_witness:
  "index (memory_env all_down) any_request \<lparr>store = two_events, res = []\<rparr>
     = Inr \<lparr>store = two_events, res = [Response 500 (SendBody (Failure ''down''))]\<rparr>
   \<and> show_handler (memory_env all_down) any_request \<lparr>store = two_events, res = []\<rparr>
     = Inr \<lparr>store = two_events, res = [Response 500 (SendBody (Failure ''down''))]\<rparr>
   \<and> create (memory_env all_down) any_request \<lparr>store = two_events, res = []\<rparr>
     = Inr \<lparr>store = two_events, res = [Response 500 (SendBody (Failure ''down''))]\<rparr>
   \<and> upsert (memory_env all_down) any_request \<lparr>store = two_events, res = []\<rparr>
     = Inr \<lparr>store = two_events, res = [Response 500 (SendBody (Failure ''down''))]\<rparr>
   \<and> patch (memory_env all_down) any_request \<lparr>store = two_events, res = []\<rparr>
     = Inr \<lparr>store = two_events, res = [Response 500 (SendBody (Failure ''down''))]\<rparr>
   \<and> destroy (memory_env all_down) any_request \<lparr>store = two_events, res = []\<rparr>
     = Inr \<lparr>store = two_events, res = [Response 500 (SendBody (Failure ''down''))]\<rparr>
   \<and> search (memory_env all_down) any_request \<lparr>store = two_events, res = []\<rparr>
     = Inr \<lparr>store = two_events, res = [Response 500 (SendBody (Failure ''down''))]\<rparr>
   \<and> hosting (memory_env all_down) any_request \<lparr>store = two_events, res = []\<rparr>
     = Inr \<lparr>store = two_events, res = [Response 500 (SendBody (Failure ''down''))]\<rparr>
   \<and> going (memory_env all_down) any_request \<lparr>store = two_events, res = []\<rparr>
     = Inr \<lparr>store = two_events, res = [Response 500 (SendBody (Failure ''down''))]\<rparr>
   \<and> favorite (memory_env all_down) any_request \<lparr>store = two_events, res = []\<rparr>
     = Inr \<lparr>store = two_events, res = [Response 500 (SendBody (Failure ''down''))]\<rparr>
   \<and> patch (memory_env no_faults) (patch_request ''e1'' ''/nope'')
       \<lparr>store = two_events, res = []\<rparr>
     = Inr \<lparr>store = two_events,
            res = [Response 500 (SendBody (Failure ''OPERATION_PATH_UNRESOLVABLE''))]\<rparr>
   \<and> patch (memory_env (down OpSave)) (patch_request ''e1'' ''/name'')
       \<lparr>store = two_events, res = []\<rparr>
     = Inr \<lparr>store = two_events, res = [Response 500 (SendBody (Failure ''down''))]\<rparr>
   \<and> destroy (memory_env (down OpRemove)) any_request \<lparr>store = two_events, res = []\<rparr>
     = Inr \<lparr>store = two_events, res = [Response 500 (SendBody (Failure ''down''))]\<rparr>"
  using
    stage_failure_answers_500 [where M = "memory_env all_down" and req = any_request
      and w = "\<lparr>store = two_events, res = []\<rparr>" and e = "Failure ''down''"
      and s' = two_events and b = "JObj [(''name'', JStr ''Renamed'')]"
      and re = "Literal ''launch'' ''i''"]
    stage_failure_answers_500 [where M = "memory_env no_faults"
      and req = "patch_request ''e1'' ''/nope''"
      and w = "\<lparr>store = two_events, res = []\<rparr>"
      and e = "Failure ''OPERATION_PATH_UNRESOLVABLE''"
      and b = "body (patch_request ''e1'' ''/nope'')" and ent = launch]
    stage_failure_answers_500 [where M = "memory_env (down OpSave)"
      and req = "patch_request ''e1'' ''/name''"
      and w = "\<lparr>store = two_events, res = []\<rparr>" and e = "Failure ''down''"
      and s' = two_events and b = "body (patch_request ''e1'' ''/name'')" and ent = launch
      and ent' = "JObj [(''_id'', JStr ''e1''), (''name'', JStr ''Renamed''),
                        (''host'', JStr ''u1'')]"]
    stage_failure_answers_500 [where M = "memory_env (down OpRemove)" and req = any_request
      and w = "\<lparr>store = two_events, res = []\<rparr>" and e = "Failure ''down''"
      and s' = two_events and ent = launch]
  by (simp add: memory_defs strip_id_def all_down_def down_def any_request_def
      patch_request_def)

subsection \<open>Searching by name\<close>

text \<open>
  C7. \<open>search\<close> is to answer every text. It does not: \<open>new RegExp(req.params.text, 'i')\<close>
  is evaluated before \<open>Event.find\<close> is called, outside the promise chain. When the
  constructor refuses the text, \<open>search\<close> throws the constructor's error; its own
  \<open>catch(handleError(res))\<close>, the way every other failure of the handler takes, is not
  reached, and nothing is written on the response: neither the 200 nor a 500.
\<close>

theorem search_throws_past_its_catch:
  assumes "RegExp_new M (param req ''text'') ''i'' = Inl e"
  shows "search M req w = Inl e"
  using assms by (simp add: search_answered)

theorem search_throws_past_its_catch_witness:
  "search (memory_env no_faults) \<lparr>params = [(''text'', ''('')], body = JObj []\<rparr>
     \<lparr>store = two_events, res = []\<rparr>
   = Inl (Failure ''SyntaxError'')"
  using search_throws_past_its_catch [where M = "memory_env no_faults"
      and req = "\<lparr>params = [(''text'', ''('')], body = JObj []\<rparr>"
      and w = "\<lparr>store = two_events, res = []\<rparr>" and e = "Failure ''SyntaxError''"]
  by (simp add: memory_defs)

text \<open>
  When the constructor accepts the text, \<open>search\<close> asks the store for the events whose
  name matches the pattern \<open>RegExp(text, 'i')\<close>, and when the store answers with an array
  (possibly empty) it responds 200 with that array.
\<close>

lemma search_found:
  assumes "RegExp_new M (param req ''text'') ''i'' = Inr re"
    and "Event_find M (NameRegex re) [populate_host] (store w) = Inr (JArr evs)"
  shows "search M req w = Inr (w\<lparr>res := res w @ [Response 200 (JsonBody (JArr evs))]\<rparr>)"
  using assms by (simp add: search_answered answered_def)

lemma search_LAUNCH:
  "search (memory_env no_faults) \<lparr>params = [(''text'', ''LAUNCH'')], body = JObj []\<rparr>
     \<lparr>store = two_events, res = []\<rparr>
   = Inr \<lparr>store = two_events, res = [Response 200 (JsonBody (JArr [launch]))]\<rparr>"
  by (simp add: search_answered answered_def memory_defs)

text \<open>The environment refuses a group or a class left open and a group closed unopened.\<close>

lemma memory_RegExp_refuses:
  "memory_RegExp (JStr ''('') ''i'' = Inl (Failure ''SyntaxError'')"
  "memory_RegExp (JStr '')'') ''i'' = Inl (Failure ''SyntaxError'')"
  "memory_RegExp (JStr ''['') ''i'' = Inl (Failure ''SyntaxError'')"
  "memory_RegExp (JStr ''(a[)]'') ''i'' = Inl (Failure ''SyntaxError'')"
  by (simp_all add: memory_defs)

text \<open>
  In the in-memory store the events found for a text without syntax characters are exactly
  those whose name contains the text, letter case ignored; \<open>contains\<close> is containment.
\<close>

lemma take_is_prefix: "take (length p) s = p \<longleftrightarrow> (\<exists>b. s = p @ b)"
  by (metis append_eq_conv_conj append_take_drop_id)

lemma contains_iff: "contains p s \<longleftrightarrow> (\<exists>a b. s = a @ p @ b)"
proof (induction s)
  case Nil
  show ?case by auto
next
  case (Cons c cs)
  have "(\<exists>a b. c # cs = a @ p @ b) \<longleftrightarrow> (\<exists>b. c # cs = p @ b) \<or> (\<exists>a b. cs = a @ p @ b)"
    by (auto simp: Cons_eq_append_conv)
  with Cons show ?case
    by (simp add: take_is_prefix del: take_Suc_Cons)
qed

lemma memory_search_literal:
  assumes "list_all (\<lambda>c. c \<notin> set syntax_characters) t"
  shows "search (memory_env no_faults) \<lparr>params = [(''text'', t)], body = b\<rparr> w =
    Inr (w\<lparr>res := res w @
      [Response 200
         (JsonBody (JArr (filter (satisfies (NameRegex (Literal t ''i''))) (map snd (store w)))))]\<rparr>)"
  using assms
  by (simp add: search_answered answered_def memory_env_def memory_RegExp_def memory_find_def
      no_faults_def param_def)

lemma satisfies_literal:
  "satisfies (NameRegex (Literal t ''i'')) d \<longleftrightarrow>
     (\<exists>n a b. field d ''name'' = JStr n \<and> map to_upper n = a @ map to_upper t @ b)"
  by (cases "field d ''name''") (auto simp: canonical_def contains_iff)

lemma search_party:
  "search (memory_env no_faults) \<lparr>params = [(''text'', ''party'')], body = JObj []\<rparr>
     \<lparr>store = two_events, res = []\<rparr>
   = Inr \<lparr>store = two_events, res = [Response 200 (JsonBody (JArr [launch]))]\<rparr>"
  by (simp add: search_answered answered_def memory_defs)

lemma search_xyz:
  "search (memory_env no_faults) \<lparr>params = [(''text'', ''xyz'')], body = JObj []\<rparr>
     \<lparr>store = two_events, res = []\<rparr>
   = Inr \<lparr>store = two_events, res = [Response 200 (JsonBody (JArr []))]\<rparr>"
  by (simp add: search_answered answered_def memory_defs)

text \<open>A run that writes two responses: the 404 and the 500 of a patch on a missing entity.\<close>

theorem handlers_write_module_statuses_witness:
  "handle Patch (memory_env no_faults) (patch_request ''e9'' ''/name'')
     \<lparr>store = two_events, res = []\<rparr>
   = Inr \<lparr>store = two_events,
          res = [Response 404 NoBody, Response 500 (SendBody TypeError)]\<rparr>
   \<and> (\<exists>new. [Response 404 NoBody, Response 500 (SendBody (TypeError :: string error))]
               = [] @ new
            \<and> (\<forall>x\<in>set new. status x \<in> {200, 201, 204, 404, 500}))"
proof -
  have run: "handle Patch (memory_env no_faults) (patch_request ''e9'' ''/name'')
     \<lparr>store = two_events, res = []\<rparr>
   = Inr \<lparr>store = two_events,
          res = [Response 404 NoBody, Response 500 (SendBody TypeError)]\<rparr>"
    by (simp add: patch_def stage_defs strip_id_def patch_request_def memory_defs)
  from handlers_write_module_statuses [OF run] run show ?thesis
    by simp
qed

end
